theory Spec2Isabelle
  imports Main "HOL-Library.Word"
begin

unbundle bit_operations_syntax

section \<open>Bytes, strings and the big-endian helpers\<close>

text \<open>
  A Go \<^verbatim>\<open>string\<close> is an immutable sequence of bytes and \<^verbatim>\<open>[]byte(s)\<close> /
  \<^verbatim>\<open>string(b)\<close> copy that sequence unchanged, so both are byte lists here and the two
  conversions are the identity. \<open>lit\<close> writes a Go string literal as its bytes.
\<close>

type_synonym byte = "8 word"
type_synonym gostring = "byte list"

definition lit :: "string \<Rightarrow> gostring" where
  "lit s = map of_char s"

text \<open>\<^verbatim>\<open>copy(dst, src)\<close>: overwrites the first \<open>min (len dst) (len src)\<close> cells of \<open>dst\<close>.\<close>

definition go_copy :: "'a list \<Rightarrow> 'a list \<Rightarrow> 'a list" where
  "go_copy dst src = take (length dst) src @ drop (length src) dst"

text \<open>\<^verbatim>\<open>binary.BigEndian.PutUint32\<close> and \<^verbatim>\<open>binary.BigEndian.Uint32\<close> on a 4-byte slice.\<close>

definition PutUint32 :: "32 word \<Rightarrow> byte list" where
  "PutUint32 v = [ucast (drop_bit 24 v), ucast (drop_bit 16 v), ucast (drop_bit 8 v), ucast v]"

definition Uint32 :: "byte list \<Rightarrow> 32 word" where
  "Uint32 b = ucast (b ! 3) OR push_bit 8 (ucast (b ! 2))
                OR push_bit 16 (ucast (b ! 1)) OR push_bit 24 (ucast (b ! 0))"

text \<open>\<^verbatim>\<open>bytes.TrimRight(s, cutset)\<close> for a cutset of single-byte characters.\<close>

definition TrimRight :: "byte list \<Rightarrow> byte list \<Rightarrow> byte list" where
  "TrimRight s cutset = rev (dropWhile (\<lambda>b. b \<in> set cutset) (rev s))"

section \<open>pkg/types/message.go: the frame codec\<close>

text \<open>\<^verbatim>\<open>time.Time\<close> is kept as an integer clock reading.\<close>

record Message =
  Type :: byte
  TunnelID :: gostring
  Payload :: "byte list"
  Timestamp :: int

definition MessageTypeTunnelRegistration :: byte where "MessageTypeTunnelRegistration = 0x01"
definition MessageTypeDataForward :: byte where "MessageTypeDataForward = 0x02"
definition MessageTypeDataResponse :: byte where "MessageTypeDataResponse = 0x03"
definition MessageTypeConnectionClose :: byte where "MessageTypeConnectionClose = 0x04"
definition MessageTypeHeartbeat :: byte where "MessageTypeHeartbeat = 0x05"
definition MessageTypeError :: byte where "MessageTypeError = 0x06"
definition MessageTypeAcknowledge :: byte where "MessageTypeAcknowledge = 0x07"

definition NewMessage :: "byte \<Rightarrow> gostring \<Rightarrow> byte list \<Rightarrow> int \<Rightarrow> Message" where
  "NewMessage msgType tunnelID payload now =
     \<lparr>Type = msgType, TunnelID = tunnelID, Payload = payload, Timestamp = now\<rparr>"

text \<open>
  \<^verbatim>\<open>Message.Serialize\<close>. The buffer of \<open>1 + 16 + 4 + payloadSize\<close> zero bytes is filled
  region by region; the model builds the four regions in order. \<open>uint32(payloadSize)\<close>
  keeps the low 32 bits of the length. The returned error is always nil, so only the
  buffer is returned.
\<close>

definition Serialize :: "Message \<Rightarrow> byte list" where
  "Serialize m =
     (let payloadSize = length (Payload m);
          tunnelIDBytes = TunnelID m;
          tunnelIDBytes = (if length tunnelIDBytes > 16 then take 16 tunnelIDBytes
                           else tunnelIDBytes)
      in [Type m]
         @ go_copy (replicate 16 0) tunnelIDBytes
         @ PutUint32 (of_nat payloadSize)
         @ go_copy (replicate payloadSize 0) (Payload m))"

text \<open>
  \<^verbatim>\<open>Message.Deserialize\<close> writes into the receiver field by field, so the model takes the
  receiver and returns it updated together with the error (\<open>None\<close> is nil). On the
  truncation error the type and the tunnel id have already been stored. \<open>int\<close> is 64
  bits wide, so \<open>offset + int(payloadSize)\<close> does not wrap.
\<close>

datatype codec_error =
  MessageTooShort nat
| MessageTruncated nat nat

definition Deserialize :: "Message \<Rightarrow> byte list \<Rightarrow> Message \<times> codec_error option" where
  "Deserialize m data =
     (if length data < 21 then (m, Some (MessageTooShort (length data)))
      else
        let m = m\<lparr>Type := data ! 0\<rparr>;
            tunnelIDBytes = take 16 (drop 1 data);
            m = m\<lparr>TunnelID := TrimRight tunnelIDBytes [0]\<rparr>;
            payloadSize = Uint32 (take 4 (drop 17 data));
            offset = 21
        in if length data < offset + unat payloadSize
           then (m, Some (MessageTruncated (offset + unat payloadSize) (length data)))
           else (m\<lparr>Payload := take (unat payloadSize) (drop offset data)\<rparr>, None))"

section \<open>internal/protocol/reader.go: reading a frame from a connection\<close>

text \<open>
  The buffered reader over the connection is the list of bytes still to arrive and the
  way the stream ends after them: a clean end of file or another I/O error (reset,
  deadline). \<^verbatim>\<open>io.ReadFull\<close> fills the whole buffer or fails: with \<open>io.EOF\<close>
  when nothing could be read, \<open>io.ErrUnexpectedEOF\<close> when the stream ended part-way,
  and the stream's own error otherwise.
\<close>

datatype stream_end = EndOfFile | IOFailure

record Reader =
  pending :: "byte list"
  ending :: stream_end

datatype io_error = EOF | ErrUnexpectedEOF | ErrIO

definition ReadFull :: "Reader \<Rightarrow> nat \<Rightarrow> (io_error + byte list) \<times> Reader" where
  "ReadFull r n =
     (if n \<le> length (pending r)
      then (Inr (take n (pending r)), r\<lparr>pending := drop n (pending r)\<rparr>)
      else (Inl (if ending r = IOFailure then ErrIO
                 else if pending r = [] then EOF else ErrUnexpectedEOF),
            r\<lparr>pending := []\<rparr>))"

text \<open>
  \<^verbatim>\<open>Reader.ReadMessage\<close>. The three \<open>fmt.Errorf\<close> results are the three constructors of
  \<open>read_error\<close>. The tunnel id is the 16-byte field converted to a string and then cut
  by one byte (\<open>[:len(tunnelID)-1]\<close>). The payload is read whenever the declared size
  is positive; there is no other test on the size. The debug log line is not modelled.
\<close>

datatype read_error =
  ConnectionClosedByPeer
| FailedToReadHeader io_error
| FailedToReadPayload io_error

definition ReadMessage :: "Reader \<Rightarrow> int \<Rightarrow> (read_error + Message) \<times> Reader" where
  "ReadMessage r now =
     (case ReadFull r 21 of
        (Inl err, r1) \<Rightarrow>
          (Inl (if err = EOF then ConnectionClosedByPeer else FailedToReadHeader err), r1)
      | (Inr header, r1) \<Rightarrow>
          let msgType = header ! 0;
              tunnelID = take 16 (drop 1 header);
              tunnelID = take (length tunnelID - 1) tunnelID;
              payloadSize = Uint32 (take 4 (drop 17 header))
          in if payloadSize > 0
             then (case ReadFull r1 (unat payloadSize) of
                     (Inl err, r2) \<Rightarrow> (Inl (FailedToReadPayload err), r2)
                   | (Inr payload, r2) \<Rightarrow>
                       (Inr \<lparr>Type = msgType, TunnelID = tunnelID, Payload = payload,
                             Timestamp = now\<rparr>, r2))
             else (Inr \<lparr>Type = msgType, TunnelID = tunnelID, Payload = [],
                        Timestamp = now\<rparr>, r1))"

text \<open>
  Modelled from the spec: the frame size limit \<open>MAX_FRAME = 16 MiB\<close>. No constant of
  that kind is declared in the source.
\<close>

definition MAX_FRAME :: nat where
  "MAX_FRAME = 16 * 1024 * 1024"

section \<open>internal/proxy/http_proxy.go: the HTTP forwarder\<close>

text \<open>\<^verbatim>\<open>%d\<close> of \<^verbatim>\<open>fmt.Sprintf\<close>: an integer in decimal, with a minus sign when negative.\<close>

fun digits :: "nat \<Rightarrow> gostring" where
  "digits n = (if n < 10 then [48 + of_nat n]
               else digits (n div 10) @ [48 + of_nat (n mod 10)])"

declare digits.simps [simp del]

definition Itoa :: "int \<Rightarrow> gostring" where
  "Itoa i = (if i < 0 then lit ''-'' @ digits (nat (- i)) else digits (nat i))"

text \<open>
  The payload records of \<^verbatim>\<open>pkg/types/message.go\<close>. A Go map that the code ranges over
  is an association list with distinct keys, in the order the \<open>range\<close> loop visits it;
  a map that is only built and returned is a HOL map.
\<close>

record DataForwardPayload =
  ConnectionID :: gostring
  RequestID :: gostring
  Data :: "byte list"
  Headers :: "(gostring \<times> gostring) list"
  Method :: gostring
  Path :: gostring

record DataResponsePayload =
  ConnectionID :: gostring
  RequestID :: gostring
  Data :: "byte list"
  StatusCode :: int
  Headers :: "gostring \<rightharpoonup> gostring"

text \<open>
  \<^verbatim>\<open>client.Tunnel\<close>, the record the control plane returns, without its two
  \<^verbatim>\<open>time.Time\<close> fields (no modelled function reads them).
\<close>

record Tunnel =
  ID :: gostring
  Protocol :: gostring
  PublicURL :: gostring
  Status :: gostring
  Subdomain :: gostring
  LocalPort :: int

text \<open>
  What \<^verbatim>\<open>net/http\<close> does is outside the repository and is a parameter of the model:
  \<open>NewRequest\<close> is \<^verbatim>\<open>http.NewRequest\<close> (\<open>None\<close> when it returns an error: a malformed
  method or URL), \<open>CanonicalKey\<close> is the header key normalisation of \<^verbatim>\<open>Header.Set\<close>, and
  \<open>Do\<close> is \<^verbatim>\<open>client.Do\<close> against the local service (\<open>Inl\<close> its error: refused dial,
  timeout). A response carries the result of \<^verbatim>\<open>io.ReadAll\<close> on its body, \<open>None\<close> when
  the read fails.
\<close>

record http_Request =
  ReqMethod :: gostring
  ReqURL :: gostring
  ReqBody :: "byte list"
  ReqHeader :: "gostring \<rightharpoonup> gostring"

record http_Response =
  RespStatusCode :: int
  RespHeader :: "(gostring \<times> gostring list) list"
  RespBody :: "byte list option"

record http_world =
  NewRequest :: "gostring \<Rightarrow> gostring \<Rightarrow> byte list \<Rightarrow> http_Request option"
  CanonicalKey :: "gostring \<Rightarrow> gostring"
  Do :: "http_Request \<Rightarrow> gostring + http_Response"

definition Header_Set :: "http_world \<Rightarrow> http_Request \<Rightarrow> gostring \<Rightarrow> gostring \<Rightarrow> http_Request" where
  "Header_Set w r key v = r\<lparr>ReqHeader := (ReqHeader r)(CanonicalKey w key \<mapsto> v)\<rparr>"

text \<open>
  \<^verbatim>\<open>HTTPProxy\<close>: the local port and the tunnel it serves (the logger and the HTTP
  client are not state of the model; log lines are left out). The tunnel pointer that
  \<^verbatim>\<open>NewHTTPProxy\<close> stores and the request pointer that \<^verbatim>\<open>HandleRequest\<close> receives are
  taken to be non-nil, so both are records.
\<close>

record HTTPProxy =
  localPort :: int
  tunnel :: Tunnel

definition StatusInternalServerError :: int where "StatusInternalServerError = 500"
definition StatusBadGateway :: int where "StatusBadGateway = 502"

definition createErrorResponse :: "DataForwardPayload \<Rightarrow> int \<Rightarrow> gostring \<Rightarrow> DataResponsePayload" where
  \<open>createErrorResponse req statusCode message =
     (let errorBody = lit ''{"error": "'' @ message @ lit ''", "status": '' @ Itoa statusCode @ lit ''}''
      in \<lparr>DataResponsePayload.ConnectionID = DataForwardPayload.ConnectionID req,
          DataResponsePayload.RequestID = DataForwardPayload.RequestID req,
          DataResponsePayload.Data = errorBody,
          StatusCode = statusCode,
          DataResponsePayload.Headers = [lit ''Content-Type'' \<mapsto> lit ''application/json'']\<rparr>)\<close>

text \<open>
  The part of \<^verbatim>\<open>HandleRequest\<close> between \<^verbatim>\<open>http.NewRequest\<close> and \<^verbatim>\<open>client.Do\<close>: the
  headers of the payload are copied in range order, then the forwarding headers are set.
\<close>

definition forwardingHeaders :: "http_world \<Rightarrow> HTTPProxy \<Rightarrow> DataForwardPayload \<Rightarrow> http_Request \<Rightarrow> http_Request" where
  "forwardingHeaders w hp req httpReq =
     (let httpReq = fold (\<lambda>(key, v) r. Header_Set w r key v) (DataForwardPayload.Headers req) httpReq;
          httpReq = Header_Set w httpReq (lit ''X-Forwarded-For'') (lit ''127.0.0.1'');
          httpReq = Header_Set w httpReq (lit ''X-Forwarded-Proto'') (lit ''http'');
          httpReq = (case map_of (DataForwardPayload.Headers req) (lit ''Host'') of
                       Some host \<Rightarrow> Header_Set w httpReq (lit ''X-Forwarded-Host'') host
                     | None \<Rightarrow> httpReq)
      in Header_Set w httpReq (lit ''X-ShipIt-Tunnel'') (Tunnel.ID (tunnel hp)))"

text \<open>The response headers keep the first value of every name that has one.\<close>

definition firstValues :: "(gostring \<times> gostring list) list \<Rightarrow> (gostring \<rightharpoonup> gostring)" where
  "firstValues hdr =
     fold (\<lambda>(key, values) headers. if length values > 0 then headers(key \<mapsto> values ! 0) else headers)
          hdr Map.empty"

text \<open>
  \<^verbatim>\<open>HTTPProxy.HandleRequest\<close> returns a response and an error; the error is the second
  component (\<open>None\<close> is nil).
\<close>

definition HandleRequest ::
  "http_world \<Rightarrow> HTTPProxy \<Rightarrow> DataForwardPayload \<Rightarrow> DataResponsePayload \<times> gostring option" where
  "HandleRequest w hp req =
     (let requestID = DataForwardPayload.RequestID req;
          connectionID = DataForwardPayload.ConnectionID req;
          localURL = lit ''http://localhost:'' @ Itoa (localPort hp) @ Path req
      in case NewRequest w (Method req) localURL (DataForwardPayload.Data req) of
           None \<Rightarrow>
             (createErrorResponse req StatusInternalServerError (lit ''Failed to create request''), None)
         | Some httpReq \<Rightarrow>
             (case Do w (forwardingHeaders w hp req httpReq) of
                Inl err \<Rightarrow>
                  (createErrorResponse req StatusBadGateway (lit ''Failed to connect to local service''),
                   None)
              | Inr resp \<Rightarrow>
                  (case RespBody resp of
                     None \<Rightarrow>
                       (createErrorResponse req StatusInternalServerError (lit ''Failed to read response''),
                        None)
                   | Some body \<Rightarrow>
                       (\<lparr>DataResponsePayload.ConnectionID = connectionID,
                         DataResponsePayload.RequestID = requestID,
                         DataResponsePayload.Data = body,
                         StatusCode = RespStatusCode resp,
                         DataResponsePayload.Headers = firstValues (RespHeader resp)\<rparr>,
                        None))))"

section \<open>The connection pool\<close>

text \<open>
  \<^verbatim>\<open>Connection\<close> without its socket, reader and writer. The pool holds pointers to its
  connections; the model holds the records, and a call that writes through a pointer
  returns the pool with that element replaced.
\<close>

record Connection =
  ID :: gostring
  IsHealthy :: bool
  LastUsed :: int
  CreatedAt :: int

text \<open>\<open>roundRobin\<close> is an \<open>int\<close> that starts at 0 and is only ever assigned a remainder.\<close>

record ConnectionPool =
  poolSize :: int
  connections :: "Connection list"
  roundRobin :: nat

datatype pool_error =
  NoConnectionsAvailable
| ConnectionNotHealthy gostring

definition GetConnection :: "ConnectionPool \<Rightarrow> int \<Rightarrow> (pool_error + Connection) \<times> ConnectionPool" where
  "GetConnection cp now =
     (if length (connections cp) = 0 then (Inl NoConnectionsAvailable, cp)
      else
        let cp = cp\<lparr>roundRobin := (roundRobin cp + 1) mod length (connections cp)\<rparr>;
            conn = connections cp ! roundRobin cp
        in if \<not> IsHealthy conn then (Inl (ConnectionNotHealthy (Connection.ID conn)), cp)
           else
             let conn = conn\<lparr>LastUsed := now\<rparr>
             in (Inr conn, cp\<lparr>connections := (connections cp)[roundRobin cp := conn]\<rparr>))"

definition GetHealthyConnections :: "ConnectionPool \<Rightarrow> Connection list" where
  "GetHealthyConnections cp = filter IsHealthy (connections cp)"

section \<open>internal/protocol/writer.go and internal/client/data_plane.go\<close>

record TunnelRegistrationPayload =
  Protocol :: gostring
  LocalPort :: int
  Subdomain :: gostring
  PublicPort :: "int option"
  MaxConnections :: int

record HeartbeatPayload =
  Timestamp :: int
  ActiveConns :: int
  TotalRequests :: int

text \<open>
  The network and \<^verbatim>\<open>encoding/json\<close> are parameters of the model: \<open>dial_ok k\<close> tells
  whether the \<open>k\<close>-th dial and TLS handshake succeeds, \<open>write_ok k\<close> whether the \<open>k\<close>-th
  \<^verbatim>\<open>conn.Write\<close> does, \<open>jsonString\<close> is the quoted and escaped JSON form of a string and
  \<open>unmarshal_ok t p\<close> tells whether \<^verbatim>\<open>json.Unmarshal\<close> accepts the payload \<open>p\<close> for the
  record of message type \<open>t\<close>.
\<close>

record net_world =
  dial_ok :: "nat \<Rightarrow> bool"
  write_ok :: "nat \<Rightarrow> bool"
  jsonString :: "gostring \<Rightarrow> gostring"
  unmarshal_ok :: "byte \<Rightarrow> byte list \<Rightarrow> bool"

text \<open>
  \<^verbatim>\<open>json.Marshal\<close> of the two payloads the client builds itself: the fields in
  declaration order under their json tags, the \<open>omitempty\<close> fields left out when empty.
\<close>

definition Marshal_HeartbeatPayload :: "HeartbeatPayload \<Rightarrow> byte list" where
  \<open>Marshal_HeartbeatPayload p =
     lit ''{"timestamp":'' @ Itoa (HeartbeatPayload.Timestamp p)
     @ lit '',"active_conns":'' @ Itoa (ActiveConns p)
     @ lit '',"total_requests":'' @ Itoa (TotalRequests p) @ lit ''}''\<close>

definition Marshal_TunnelRegistrationPayload :: "net_world \<Rightarrow> TunnelRegistrationPayload \<Rightarrow> byte list" where
  \<open>Marshal_TunnelRegistrationPayload w p =
     lit ''{"protocol":'' @ jsonString w (TunnelRegistrationPayload.Protocol p)
     @ lit '',"local_port":'' @ Itoa (TunnelRegistrationPayload.LocalPort p)
     @ (if TunnelRegistrationPayload.Subdomain p = [] then []
        else lit '',"subdomain":'' @ jsonString w (TunnelRegistrationPayload.Subdomain p))
     @ (case PublicPort p of None \<Rightarrow> [] | Some port \<Rightarrow> lit '',"public_port":'' @ Itoa port)
     @ lit '',"max_connections":'' @ Itoa (MaxConnections p) @ lit ''}''\<close>

text \<open>
  \<^verbatim>\<open>DataPlaneClient\<close>: whether it is connected, how many dials and writes it has made,
  and the byte strings its writes have delivered to the server, oldest first.
\<close>

record DataPlaneClient =
  connected :: bool
  dials :: nat
  writes :: nat
  written :: "byte list list"

datatype dp_error = AlreadyConnected | DialFailed | NotConnected | WriteFailed

definition Connect :: "net_world \<Rightarrow> DataPlaneClient \<Rightarrow> dp_error option \<times> DataPlaneClient" where
  "Connect w d =
     (if connected d then (Some AlreadyConnected, d)
      else if \<not> dial_ok w (dials d) then (Some DialFailed, d\<lparr>dials := dials d + 1\<rparr>)
      else (None, d\<lparr>connected := True, dials := dials d + 1\<rparr>))"

definition Disconnect :: "DataPlaneClient \<Rightarrow> DataPlaneClient" where
  "Disconnect d = (if \<not> connected d then d else d\<lparr>connected := False\<rparr>)"

text \<open>\<^verbatim>\<open>Writer.WriteMessage\<close>: serialize, then one \<^verbatim>\<open>conn.Write\<close> of the whole frame.\<close>

definition WriteMessage :: "net_world \<Rightarrow> DataPlaneClient \<Rightarrow> Message \<Rightarrow> dp_error option \<times> DataPlaneClient" where
  "WriteMessage w d message =
     (let data = Serialize message
      in if \<not> write_ok w (writes d) then (Some WriteFailed, d\<lparr>writes := writes d + 1\<rparr>)
         else (None, d\<lparr>writes := writes d + 1, written := written d @ [data]\<rparr>))"

text \<open>
  \<^verbatim>\<open>NewHeartbeatMessage\<close> and \<^verbatim>\<open>NewTunnelRegistrationMessage\<close>; marshalling these two
  records cannot fail, so the error they return is always nil.
\<close>

definition NewHeartbeatMessage :: "gostring \<Rightarrow> HeartbeatPayload \<Rightarrow> int \<Rightarrow> Message" where
  "NewHeartbeatMessage tunnelID payload now =
     NewMessage MessageTypeHeartbeat tunnelID (Marshal_HeartbeatPayload payload) now"

definition NewTunnelRegistrationMessage ::
  "net_world \<Rightarrow> gostring \<Rightarrow> TunnelRegistrationPayload \<Rightarrow> int \<Rightarrow> Message" where
  "NewTunnelRegistrationMessage w tunnelID payload now =
     NewMessage MessageTypeTunnelRegistration tunnelID (Marshal_TunnelRegistrationPayload w payload) now"

definition WriteHeartbeat ::
  "net_world \<Rightarrow> DataPlaneClient \<Rightarrow> gostring \<Rightarrow> HeartbeatPayload \<Rightarrow> int \<Rightarrow> dp_error option \<times> DataPlaneClient" where
  "WriteHeartbeat w d tunnelID payload now =
     WriteMessage w d (NewHeartbeatMessage tunnelID payload now)"

definition WriteTunnelRegistration ::
  "net_world \<Rightarrow> DataPlaneClient \<Rightarrow> gostring \<Rightarrow> TunnelRegistrationPayload \<Rightarrow> int
     \<Rightarrow> dp_error option \<times> DataPlaneClient" where
  "WriteTunnelRegistration w d tunnelID payload now =
     WriteMessage w d (NewTunnelRegistrationMessage w tunnelID payload now)"

definition RegisterTunnel ::
  "net_world \<Rightarrow> DataPlaneClient \<Rightarrow> Tunnel \<Rightarrow> int \<Rightarrow> dp_error option \<times> DataPlaneClient" where
  "RegisterTunnel w d tun now =
     (if \<not> connected d then (Some NotConnected, d)
      else
        let payload = \<lparr>TunnelRegistrationPayload.Protocol = Tunnel.Protocol tun,
                       TunnelRegistrationPayload.LocalPort = Tunnel.LocalPort tun,
                       TunnelRegistrationPayload.Subdomain = Tunnel.Subdomain tun,
                       PublicPort = None,
                       MaxConnections = 10\<rparr>
        in WriteTunnelRegistration w d (Tunnel.ID tun) payload now)"

text \<open>\<open>now\<close> is the reading of \<^verbatim>\<open>time.Now()\<close>, in seconds, at the call.\<close>

definition SendHeartbeat ::
  "net_world \<Rightarrow> DataPlaneClient \<Rightarrow> gostring \<Rightarrow> int \<Rightarrow> int \<Rightarrow> int \<Rightarrow> dp_error option \<times> DataPlaneClient" where
  "SendHeartbeat w d tunnelID activeConns totalRequests now =
     (if \<not> connected d then (Some NotConnected, d)
      else
        let payload = \<lparr>HeartbeatPayload.Timestamp = now,
                       ActiveConns = activeConns,
                       TotalRequests = totalRequests\<rparr>
        in WriteHeartbeat w d tunnelID payload now)"

text \<open>
  \<^verbatim>\<open>StartHeartbeat\<close> starts a goroutine that loops over a \<open>select\<close>. The model is that
  loop, run over the sequence of events it meets: the context is cancelled, the ticker
  fires (at a clock reading), or another goroutine connects or disconnects the client in
  between. A failed send is logged and the loop goes on. The list ending means the loop
  is still waiting. The \<open>interval\<close> argument only sets when the ticker fires.
\<close>

datatype hb_event = HbDone | HbTick int | HbConnected bool

fun StartHeartbeat :: "net_world \<Rightarrow> DataPlaneClient \<Rightarrow> gostring \<Rightarrow> hb_event list \<Rightarrow> DataPlaneClient" where
  "StartHeartbeat w d tunnelID [] = d"
| "StartHeartbeat w d tunnelID (HbDone # events) = d"
| "StartHeartbeat w d tunnelID (HbTick now # events) =
     StartHeartbeat w (snd (SendHeartbeat w d tunnelID 0 0 now)) tunnelID events"
| "StartHeartbeat w d tunnelID (HbConnected c # events) =
     StartHeartbeat w (d\<lparr>connected := c\<rparr>) tunnelID events"

section \<open>internal/config/config.go: the connection settings\<close>

text \<open>\<^verbatim>\<open>time.Duration\<close> counts nanoseconds.\<close>

definition Second :: int where
  "Second = 1000000000"

record ConnectionConfig =
  PoolSize :: int
  HeartbeatInterval :: int
  ReconnectInterval :: int
  MaxReconnectAttempts :: int
  ConnectionTimeout :: int

text \<open>The \<open>Connection\<close> section of \<^verbatim>\<open>DefaultConfig\<close>.\<close>

definition DefaultConfig :: ConnectionConfig where
  "DefaultConfig =
     \<lparr>PoolSize = 10,
      HeartbeatInterval = 30 * Second,
      ReconnectInterval = 5 * Second,
      MaxReconnectAttempts = 10,
      ConnectionTimeout = 30 * Second\<rparr>"

section \<open>The tunnel manager\<close>

datatype TunnelState =
  TunnelStateInitializing
| TunnelStateCreating
| TunnelStateConnecting
| TunnelStateRegistering
| TunnelStateActive
| TunnelStateError
| TunnelStateDisconnected

text \<open>The errors a tunnel can record: from the data plane client or from the reader.\<close>

datatype tunnel_error = ClientError dp_error | ReaderError read_error

record TunnelInfo =
  Tunnel :: Tunnel
  State :: TunnelState
  Error :: "tunnel_error option"
  CreatedAt :: int
  UpdatedAt :: int

datatype log_level = LevelDebug | LevelInfo | LevelWarn | LevelError

text \<open>
  The manager: its data plane client, its pool, the connection settings, the tunnel map,
  and three observations of what it does: the clock (\<^verbatim>\<open>time.Sleep\<close> advances it), the
  durations it has slept, and the log lines it has written (level and message; the
  fields of a line are left out).
\<close>

record TunnelManager =
  dataPlane :: DataPlaneClient
  connectionPool :: ConnectionPool
  config :: ConnectionConfig
  tunnels :: "gostring \<rightharpoonup> TunnelInfo"
  clock :: int
  slept :: "int list"
  logs :: "(log_level \<times> gostring) list"

definition logger :: "TunnelManager \<Rightarrow> log_level \<Rightarrow> gostring \<Rightarrow> TunnelManager" where
  "logger tm level msg = tm\<lparr>logs := logs tm @ [(level, msg)]\<rparr>"

definition Sleep :: "TunnelManager \<Rightarrow> int \<Rightarrow> TunnelManager" where
  "Sleep tm d = tm\<lparr>clock := clock tm + d, slept := slept tm @ [d]\<rparr>"

definition getTunnel :: "TunnelManager \<Rightarrow> gostring \<Rightarrow> TunnelInfo option" where
  "getTunnel tm tunnelID = tunnels tm tunnelID"

text \<open>
  \<^verbatim>\<open>updateTunnelState\<close> writes through a pointer to a \<open>TunnelInfo\<close>. Every pointer the
  modelled functions pass was read from the map by \<open>getTunnel\<close>, so the model takes the
  key it was read under and updates the map there. An entry of the map has its \<open>Tunnel\<close>
  set (\<open>runTunnel\<close> adds it after the tunnel is created), so the log line's
  \<open>tunnelInfo.Tunnel.ID\<close> is defined.
\<close>

definition updateTunnelState ::
  "TunnelManager \<Rightarrow> gostring \<Rightarrow> TunnelInfo \<Rightarrow> TunnelState \<Rightarrow> tunnel_error option \<Rightarrow> TunnelManager" where
  "updateTunnelState tm key tunnelInfo state err =
     logger
       (tm\<lparr>tunnels := (tunnels tm)(key \<mapsto> tunnelInfo\<lparr>State := state, Error := err,
                                                    UpdatedAt := clock tm\<rparr>)\<rparr>)
       LevelInfo (lit ''Tunnel state updated'')"

definition updateTunnelStateByID ::
  "TunnelManager \<Rightarrow> gostring \<Rightarrow> TunnelState \<Rightarrow> tunnel_error option \<Rightarrow> TunnelManager" where
  "updateTunnelStateByID tm tunnelID state err =
     (case getTunnel tm tunnelID of
        Some tunnelInfo \<Rightarrow> updateTunnelState tm tunnelID tunnelInfo state err
      | None \<Rightarrow> tm)"

text \<open>
  \<^verbatim>\<open>Message.ParsePayload\<close> unmarshals the payload into the record of the message type
  and fails on a type outside the seven it knows. Its callers only test the error and
  log fields of the parsed record, so the model returns whether the error is nil.
\<close>

definition ParsePayload :: "net_world \<Rightarrow> Message \<Rightarrow> bool" where
  "ParsePayload w m =
     (if Type m = MessageTypeTunnelRegistration \<or> Type m = MessageTypeDataForward
         \<or> Type m = MessageTypeDataResponse \<or> Type m = MessageTypeHeartbeat
         \<or> Type m = MessageTypeError \<or> Type m = MessageTypeAcknowledge
         \<or> Type m = MessageTypeConnectionClose
      then unmarshal_ok w (Type m) (Payload m)
      else False)"

text \<open>
  The four handlers parse the payload and write a log line; \<open>handleDataForward\<close> does
  nothing more (forwarding is a TODO in the source).
\<close>

definition handleDataForward :: "net_world \<Rightarrow> TunnelManager \<Rightarrow> gostring \<Rightarrow> Message \<Rightarrow> TunnelManager" where
  "handleDataForward w tm tunnelID message =
     (if \<not> ParsePayload w message
      then logger tm LevelError (lit ''Failed to parse data forward payload'')
      else logger tm LevelDebug (lit ''Handling data forward''))"

definition handleAcknowledge :: "net_world \<Rightarrow> TunnelManager \<Rightarrow> gostring \<Rightarrow> Message \<Rightarrow> TunnelManager" where
  "handleAcknowledge w tm tunnelID message =
     (if \<not> ParsePayload w message
      then logger tm LevelError (lit ''Failed to parse acknowledge payload'')
      else logger tm LevelDebug (lit ''Received acknowledgment''))"

definition handleError :: "net_world \<Rightarrow> TunnelManager \<Rightarrow> gostring \<Rightarrow> Message \<Rightarrow> TunnelManager" where
  "handleError w tm tunnelID message =
     (if \<not> ParsePayload w message
      then logger tm LevelError (lit ''Failed to parse error payload'')
      else logger tm LevelError (lit ''Received error from server''))"

definition handleHeartbeat :: "net_world \<Rightarrow> TunnelManager \<Rightarrow> gostring \<Rightarrow> Message \<Rightarrow> TunnelManager" where
  "handleHeartbeat w tm tunnelID message =
     (if \<not> ParsePayload w message
      then logger tm LevelError (lit ''Failed to parse heartbeat payload'')
      else logger tm LevelDebug (lit ''Received heartbeat''))"

definition handleMessage :: "net_world \<Rightarrow> TunnelManager \<Rightarrow> gostring \<Rightarrow> Message \<Rightarrow> TunnelManager" where
  "handleMessage w tm tunnelID message =
     (let tm = logger tm LevelDebug (lit ''Handling message'')
      in if Type message = MessageTypeDataForward then handleDataForward w tm tunnelID message
         else if Type message = MessageTypeAcknowledge then handleAcknowledge w tm tunnelID message
         else if Type message = MessageTypeError then handleError w tm tunnelID message
         else if Type message = MessageTypeHeartbeat then handleHeartbeat w tm tunnelID message
         else logger tm LevelWarn (lit ''Unknown message type''))"

text \<open>
  \<^verbatim>\<open>reconnectTunnel\<close>: disconnect, sleep for the reconnect interval, connect, register.
\<close>

definition reconnectTunnel :: "net_world \<Rightarrow> TunnelManager \<Rightarrow> gostring \<Rightarrow> TunnelManager" where
  "reconnectTunnel w tm tunnelID =
     (let tm = logger tm LevelInfo (lit ''Attempting to reconnect tunnel'')
      in case getTunnel tm tunnelID of
           None \<Rightarrow> logger tm LevelError (lit ''Tunnel not found for reconnection'')
         | Some tunnelInfo \<Rightarrow>
             (let tm = tm\<lparr>dataPlane := Disconnect (dataPlane tm)\<rparr>;
                  tm = Sleep tm (ReconnectInterval (config tm))
              in case Connect w (dataPlane tm) of
                  (Some err, d) \<Rightarrow>
                    updateTunnelState
                      (logger (tm\<lparr>dataPlane := d\<rparr>) LevelError (lit ''Failed to reconnect''))
                      tunnelID tunnelInfo TunnelStateError (Some (ClientError err))
                | (None, d) \<Rightarrow>
                    (case RegisterTunnel w d (Tunnel tunnelInfo) (clock tm) of
                       (Some err, d) \<Rightarrow>
                         updateTunnelState
                           (logger (tm\<lparr>dataPlane := d\<rparr>) LevelError
                              (lit ''Failed to re-register tunnel''))
                           tunnelID tunnelInfo TunnelStateError (Some (ClientError err))
                     | (None, d) \<Rightarrow>
                         logger
                           (updateTunnelState (tm\<lparr>dataPlane := d\<rparr>) tunnelID tunnelInfo
                              TunnelStateActive None)
                           LevelInfo (lit ''Tunnel reconnected successfully''))))"

text \<open>
  \<^verbatim>\<open>handleConnectionError\<close> ends with \<^verbatim>\<open>go tm.reconnectTunnel(tunnelID)\<close>; the model runs
  that goroutine to its end at the point where it is started.
\<close>

definition handleConnectionError ::
  "net_world \<Rightarrow> TunnelManager \<Rightarrow> gostring \<Rightarrow> tunnel_error option \<Rightarrow> TunnelManager" where
  "handleConnectionError w tm tunnelID err =
     (let tm = logger tm LevelError (lit ''Connection error occurred'');
          tm = updateTunnelStateByID tm tunnelID TunnelStateDisconnected err
      in reconnectTunnel w tm tunnelID)"

text \<open>
  \<^verbatim>\<open>processMessages\<close> loops over a \<open>select\<close> on the context, the message channel and the
  error channel. The model runs the loop over the sequence of receptions: a closed
  channel delivers nil (\<open>None\<close>), and a nil message makes \<open>handleMessage\<close> panic on
  \<open>message.Type\<close>. The result tells how the loop ended; \<open>Waiting\<close> is the loop blocked
  in \<open>select\<close> after the last event.
\<close>

datatype pm_event =
  CtxDone
| MessageReceived "Message option"
| ErrorReceived "tunnel_error option"

datatype pm_exit = Returned | Panicked | Waiting

fun processMessages ::
  "net_world \<Rightarrow> TunnelManager \<Rightarrow> gostring \<Rightarrow> pm_event list \<Rightarrow> pm_exit \<times> TunnelManager" where
  "processMessages w tm tunnelID [] = (Waiting, tm)"
| "processMessages w tm tunnelID (CtxDone # events) =
     (Returned, logger tm LevelInfo (lit ''Message processing stopped due to context cancellation''))"
| "processMessages w tm tunnelID (MessageReceived None # events) = (Panicked, tm)"
| "processMessages w tm tunnelID (MessageReceived (Some message) # events) =
     processMessages w (handleMessage w tm tunnelID message) tunnelID events"
| "processMessages w tm tunnelID (ErrorReceived err # events) =
     (Returned,
      handleConnectionError w (logger tm LevelError (lit ''Error reading message'')) tunnelID err)"

section \<open>Concrete inputs used in the examples\<close>

text \<open>
  A local service that refuses every connection, the proxy and the request of the
  repository's own proxy test, and a pool of two links of which the second is unhealthy.
\<close>

definition refusing_world :: http_world where
  "refusing_world =
     \<lparr>NewRequest = (\<lambda>m u b. Some \<lparr>ReqMethod = m, ReqURL = u, ReqBody = b, ReqHeader = Map.empty\<rparr>),
      CanonicalKey = (\<lambda>k. k),
      Do = (\<lambda>r. Inl (lit ''connection refused''))\<rparr>"

definition test_proxy :: HTTPProxy where
  "test_proxy =
     \<lparr>localPort = 3000,
      tunnel = \<lparr>Tunnel.ID = lit ''test-tunnel'', Tunnel.Protocol = lit ''http'', PublicURL = [],
                Status = [], Tunnel.Subdomain = [], Tunnel.LocalPort = 3000\<rparr>\<rparr>"

definition test_request :: DataForwardPayload where
  "test_request =
     \<lparr>DataForwardPayload.ConnectionID = lit ''conn-123'',
      DataForwardPayload.RequestID = lit ''req-456'',
      DataForwardPayload.Data = [],
      DataForwardPayload.Headers = [(lit ''Host'', lit ''test.example.com'')],
      Method = lit ''GET'',
      Path = lit ''/api/test''\<rparr>"

definition two_link_pool :: ConnectionPool where
  "two_link_pool =
     \<lparr>poolSize = 2,
      connections = [\<lparr>Connection.ID = lit ''conn_1'', IsHealthy = True, LastUsed = 0, Connection.CreatedAt = 0\<rparr>,
                     \<lparr>Connection.ID = lit ''conn_2'', IsHealthy = False, LastUsed = 0, Connection.CreatedAt = 0\<rparr>],
      roundRobin = 0\<rparr>"

text \<open>
  A network on which every dial fails, and a manager with the default connection
  settings, a connected data plane client and one active tunnel \<open>t1\<close>. Of the payloads
  the examples parse, \<^verbatim>\<open>json.Unmarshal\<close> is given only the empty object \<^verbatim>\<open>{}\<close>, which it
  accepts for every payload record; the example world accepts that payload and no other.
\<close>

definition unreachable_net :: net_world where
  \<open>unreachable_net =
     \<lparr>dial_ok = (\<lambda>k. False), write_ok = (\<lambda>k. True), jsonString = (\<lambda>s. s),
      unmarshal_ok = (\<lambda>t p. p = lit ''{}'')\<rparr>\<close>

definition active_manager :: TunnelManager where
  "active_manager =
     \<lparr>dataPlane = \<lparr>connected = True, dials = 1, writes = 1, written = []\<rparr>,
      connectionPool = two_link_pool,
      config = DefaultConfig,
      tunnels = [lit ''t1'' \<mapsto> \<lparr>Tunnel = tunnel test_proxy, State = TunnelStateActive,
                                  Error = None, TunnelInfo.CreatedAt = 0, UpdatedAt = 0\<rparr>],
      clock = 0, slept = [], logs = []\<rparr>"

section \<open>Properties of the codec\<close>

lemma Uint32_PutUint32: "Uint32 (PutUint32 v) = v"
proof (rule bit_word_eqI)
  fix n :: nat
  assume n: "n < LENGTH(32)"
  consider "n < 8" | "8 \<le> n" "n < 16" | "16 \<le> n" "n < 24" | "24 \<le> n" "n < 32"
    using n by fastforce
  then show "bit (Uint32 (PutUint32 v)) n = bit v n"
    by cases (auto simp add: Uint32_def PutUint32_def bit_simps)
qed

lemma length_PutUint32: "length (PutUint32 v) = 4"
  by (simp add: PutUint32_def)

lemma go_copy_zeroed: "length src \<le> n \<Longrightarrow> go_copy (replicate n z) src = src @ replicate (n - length src) z"
  by (simp add: go_copy_def)

lemma TrimRight_padding: "TrimRight (s @ replicate k z) [z] = TrimRight s [z]"
  by (simp add: TrimRight_def dropWhile_append)

lemma TrimRight_no_trailing:
  assumes "s = [] \<or> last s \<noteq> z"
  shows "TrimRight s [z] = s"
proof -
  have "dropWhile (\<lambda>b. b = z) (rev s) = rev s"
    using assms by (cases s rule: rev_cases) auto
  then show ?thesis
    by (simp add: TrimRight_def)
qed

lemma Serialize_regions:
  assumes "length (TunnelID m) \<le> 16"
  shows "Serialize m = Type m # (TunnelID m @ replicate (16 - length (TunnelID m)) 0)
                         @ PutUint32 (of_nat (length (Payload m))) @ Payload m"
  using assms by (simp add: Serialize_def Let_def go_copy_zeroed)

text \<open>
  C1. Frame codec round-trip: for every message whose tunnel id has at most 16 bytes and
  no trailing NUL byte and whose payload is shorter than \<open>2 ^ 32\<close> bytes, \<open>Deserialize\<close>
  applied to the bytes produced by \<open>Serialize\<close> returns no error and stores exactly the
  original type byte, tunnel id and payload in the receiver. (The timestamp is not part
  of the frame; the receiver keeps its own.)
\<close>

theorem Serialize_Deserialize_roundtrip:
  assumes tid: "length (TunnelID m) \<le> 16"
      and nul: "TunnelID m = [] \<or> last (TunnelID m) \<noteq> 0"
      and len: "length (Payload m) < 2 ^ 32"
  shows "Deserialize m0 (Serialize m) =
           (m0\<lparr>Type := Type m, TunnelID := TunnelID m, Payload := Payload m\<rparr>, None)"
proof -
  let ?tid = "TunnelID m @ replicate (16 - length (TunnelID m)) 0"
  let ?sz = "PutUint32 (of_nat (length (Payload m)))"
  have ser: "Serialize m = Type m # ?tid @ ?sz @ Payload m"
    using tid by (rule Serialize_regions)
  have l16: "length ?tid = 16" using tid by simp
  have l4: "length ?sz = 4" by (rule length_PutUint32)
  have un: "unat (of_nat (length (Payload m)) :: 32 word) = length (Payload m)"
    using len by (simp add: unat_of_nat)
  have t: "take 16 (drop 1 (Serialize m)) = ?tid"
    unfolding ser using l16 by simp
  have s: "take 4 (drop 17 (Serialize m)) = ?sz"
    unfolding ser using l16 l4 by simp
  have p: "drop 21 (Serialize m) = Payload m"
    unfolding ser using l16 l4 by simp
  have n: "length (Serialize m) = 21 + length (Payload m)"
    unfolding ser using l16 l4 by simp
  have h: "Serialize m ! 0 = Type m" unfolding ser by simp
  have tr: "TrimRight ?tid [0] = TunnelID m"
    using nul by (simp add: TrimRight_padding TrimRight_no_trailing)
  show ?thesis
    unfolding Deserialize_def Let_def t s p
    using n h un tr by (simp add: Uint32_PutUint32)
qed

theorem Serialize_Deserialize_roundtrip_witness:
  "length (TunnelID \<lparr>Type = 2, TunnelID = lit ''test-tunnel'', Payload = [1, 2, 3], Message.Timestamp = 7\<rparr>) \<le> 16
   \<and> last (TunnelID \<lparr>Type = 2, TunnelID = lit ''test-tunnel'', Payload = [1, 2, 3], Message.Timestamp = 7\<rparr>) \<noteq> 0
   \<and> length (Payload \<lparr>Type = 2, TunnelID = lit ''test-tunnel'', Payload = [1, 2, 3], Message.Timestamp = 7\<rparr>) < 2 ^ 32
   \<and> Deserialize \<lparr>Type = 0, TunnelID = [], Payload = [], Message.Timestamp = 0\<rparr>
         (Serialize \<lparr>Type = 2, TunnelID = lit ''test-tunnel'', Payload = [1, 2, 3], Message.Timestamp = 7\<rparr>)
       = (\<lparr>Type = 2, TunnelID = lit ''test-tunnel'', Payload = [1, 2, 3], Message.Timestamp = 0\<rparr>, None)"
  using Serialize_Deserialize_roundtrip
          [of "\<lparr>Type = 2, TunnelID = lit ''test-tunnel'', Payload = [1, 2, 3], Message.Timestamp = 7\<rparr>"
              "\<lparr>Type = 0, TunnelID = [], Payload = [], Message.Timestamp = 0\<rparr>"]
  by (simp add: lit_def)

subsection \<open>Tunnel id on the two decode paths\<close>

text \<open>
  \<open>Deserialize\<close> strips every trailing NUL of the 16-byte field: an id of at most 16
  bytes comes back as the id without its trailing NULs, whatever the payload.
\<close>

lemma Deserialize_tunnel_id:
  assumes tid: "length (TunnelID m) \<le> 16"
  shows "TunnelID (fst (Deserialize m0 (Serialize m))) = TrimRight (TunnelID m) [0]"
proof -
  let ?tid = "TunnelID m @ replicate (16 - length (TunnelID m)) 0"
  let ?sz = "PutUint32 (of_nat (length (Payload m)))"
  have ser: "Serialize m = Type m # ?tid @ ?sz @ Payload m"
    using tid by (rule Serialize_regions)
  have l16: "length ?tid = 16" using tid by simp
  have t: "take 16 (drop 1 (Serialize m)) = ?tid"
    unfolding ser using l16 by simp
  have n: "\<not> length (Serialize m) < 21"
    unfolding ser using l16 by (simp add: length_PutUint32)
  show ?thesis
    unfolding Deserialize_def Let_def t using n
    by (simp add: TrimRight_padding)
qed

text \<open>
  \<open>ReadMessage\<close> on a stream that starts with a whole frame: it returns the type byte,
  the first 15 bytes of the tunnel id field and the payload of the declared size, and
  leaves the rest of the stream. No bound on the declared size is involved.
\<close>

lemma ReadMessage_frame:
  assumes tid: "length tid = 16"
      and pl: "length payload = unat sz"
      and pend: "pending r = [t] @ tid @ PutUint32 sz @ payload @ rest"
  shows "ReadMessage r now =
           (Inr \<lparr>Type = t, TunnelID = take 15 tid, Payload = payload, Message.Timestamp = now\<rparr>,
            r\<lparr>pending := rest\<rparr>)"
proof -
  let ?hdr = "[t] @ tid @ PutUint32 sz"
  have lh: "length ?hdr = 21" using tid by (simp add: length_PutUint32)
  have p: "pending r = ?hdr @ (payload @ rest)" using pend by simp
  have rf: "ReadFull r 21 = (Inr ?hdr, r\<lparr>pending := payload @ rest\<rparr>)"
    unfolding ReadFull_def p using lh by simp
  have h0: "?hdr ! 0 = t" by simp
  have h1: "take 16 (drop 1 ?hdr) = tid" using tid by simp
  have h2: "take 4 (drop 17 ?hdr) = PutUint32 sz" using tid by (simp add: length_PutUint32)
  have rf2: "ReadFull (r\<lparr>pending := payload @ rest\<rparr>) (unat sz) = (Inr payload, r\<lparr>pending := rest\<rparr>)"
    unfolding ReadFull_def using pl by simp
  show ?thesis
  proof (cases "sz = 0")
    case True
    then have "payload = []" using pl by simp
    then show ?thesis
      unfolding ReadMessage_def rf using True h0 h1 h2 tid
      by (simp add: Uint32_PutUint32 del: append.simps)
  next
    case False
    then have "0 < sz" by (simp add: word_greater_zero_iff)
    then show ?thesis
      unfolding ReadMessage_def rf using h0 h1 h2 rf2 tid
      by (simp add: Uint32_PutUint32 del: append.simps)
  qed
qed

text \<open>When the stream ends before the declared payload, the payload read fails.\<close>

lemma ReadMessage_short_payload:
  assumes tid: "length tid = 16"
      and pl: "length avail < unat sz"
      and pend: "pending r = [t] @ tid @ PutUint32 sz @ avail"
  shows "ReadMessage r now =
           (Inl (FailedToReadPayload
                   (if ending r = IOFailure then ErrIO
                    else if avail = [] then EOF else ErrUnexpectedEOF)),
            r\<lparr>pending := []\<rparr>)"
proof -
  let ?hdr = "[t] @ tid @ PutUint32 sz"
  have lh: "length ?hdr = 21" using tid by (simp add: length_PutUint32)
  have p: "pending r = ?hdr @ avail" using pend by simp
  have rf: "ReadFull r 21 = (Inr ?hdr, r\<lparr>pending := avail\<rparr>)"
    unfolding ReadFull_def p using lh by simp
  have h2: "take 4 (drop 17 ?hdr) = PutUint32 sz" using tid by (simp add: length_PutUint32)
  have pos: "0 < sz" using pl by (metis not_less_zero unat_0 word_greater_zero_iff)
  have rf2: "ReadFull (r\<lparr>pending := avail\<rparr>) (unat sz) =
               (Inl (if ending r = IOFailure then ErrIO
                     else if avail = [] then EOF else ErrUnexpectedEOF), r\<lparr>pending := []\<rparr>)"
    unfolding ReadFull_def using pl by simp
  show ?thesis
    unfolding ReadMessage_def rf using h2 pos rf2
    by (simp add: Uint32_PutUint32 del: append.simps)
qed

text \<open>
  So the tunnel id \<open>ReadMessage\<close> returns for a whole frame always has 15 bytes: the
  padding of a shorter id stays, and the last byte of a 16-byte id is lost.
\<close>

lemma ReadMessage_tunnel_id_length:
  assumes "length tid = 16" and "length payload = unat sz"
      and "pending r = [t] @ tid @ PutUint32 sz @ payload @ rest"
      and "fst (ReadMessage r now) = Inr m"
  shows "length (TunnelID m) = 15"
  using ReadMessage_frame [OF assms(1,2,3), of now] assms(1,4) by auto

text \<open>
  C3. Tunnel id normalization on decode. The claim says that both decode paths return
  the id with all trailing NULs stripped. On the frame that \<open>Serialize\<close> produces for the
  id \<open>abc\<close>, \<open>Deserialize\<close> returns \<open>abc\<close>, but \<open>ReadMessage\<close> returns \<open>abc\<close> followed by
  twelve NUL bytes: it only cuts the last byte of the field.
\<close>

theorem ReadMessage_tunnel_id_not_normalized:
  "fst (ReadMessage
          \<lparr>pending = Serialize \<lparr>Type = 5, TunnelID = lit ''abc'', Payload = [], Message.Timestamp = 0\<rparr>,
           ending = EndOfFile\<rparr> 0)
     = Inr \<lparr>Type = 5, TunnelID = lit ''abc'' @ replicate 12 0, Payload = [], Message.Timestamp = 0\<rparr>
   \<and> fst (Deserialize \<lparr>Type = 0, TunnelID = [], Payload = [], Message.Timestamp = 0\<rparr>
            (Serialize \<lparr>Type = 5, TunnelID = lit ''abc'', Payload = [], Message.Timestamp = 0\<rparr>))
     = \<lparr>Type = 5, TunnelID = lit ''abc'', Payload = [], Message.Timestamp = 0\<rparr>"
  by code_simp

text \<open>
  C4 as stated: a frame whose header declares more than \<open>MAX_FRAME\<close> payload bytes is
  refused before the payload is read. It is not: the frame below declares
  \<open>16 MiB + 1\<close> bytes and \<open>ReadMessage\<close> returns it whole.
\<close>

theorem ReadMessage_frame_limit_counterexample:
  "MAX_FRAME < unat (Uint32 [1, 0, 0, 1])
   \<and> ReadMessage \<lparr>pending = [2] @ replicate 16 0 @ [1, 0, 0, 1] @ replicate 16777217 0,
                   ending = EndOfFile\<rparr> 0
     = (Inr \<lparr>Type = 2, TunnelID = replicate 15 0, Payload = replicate 16777217 0,
             Message.Timestamp = 0\<rparr>,
        \<lparr>pending = [], ending = EndOfFile\<rparr>)"
  by (simp add: ReadMessage_def ReadFull_def Uint32_def MAX_FRAME_def)

text \<open>
  C4 amended. \<open>ReadMessage\<close> has no frame size limit: for a header that declares more
  than \<open>MAX_FRAME\<close> payload bytes it reads the payload all the same. It returns the
  frame when the stream holds the declared number of bytes, and fails with the payload
  read error when the stream ends before them.
\<close>

theorem ReadMessage_oversized_frame:
  assumes tid: "length tid = 16"
      and big: "MAX_FRAME < unat sz"
      and pend: "pending r = [t] @ tid @ PutUint32 sz @ avail"
  shows "fst (ReadMessage r now) =
           (if unat sz \<le> length avail
            then Inr \<lparr>Type = t, TunnelID = take 15 tid, Payload = take (unat sz) avail,
                      Message.Timestamp = now\<rparr>
            else Inl (FailedToReadPayload
                        (if ending r = IOFailure then ErrIO
                         else if avail = [] then EOF else ErrUnexpectedEOF)))"
proof (cases "unat sz \<le> length avail")
  case True
  have "pending r = [t] @ tid @ PutUint32 sz @ take (unat sz) avail @ drop (unat sz) avail"
    using pend by simp
  moreover have "length (take (unat sz) avail) = unat sz"
    using True by simp
  ultimately show ?thesis
    using ReadMessage_frame [OF tid, of "take (unat sz) avail" sz r t "drop (unat sz) avail" now] True
    by simp
next
  case False
  then have "length avail < unat sz" by simp
  then show ?thesis
    using ReadMessage_short_payload [OF tid _ pend, of now] False by simp
qed

theorem ReadMessage_oversized_frame_witness:
  "length (replicate 16 (0::byte)) = 16
   \<and> MAX_FRAME < unat (33554432 :: 32 word)
   \<and> fst (ReadMessage \<lparr>pending = [3] @ replicate 16 0 @ PutUint32 33554432 @ [7, 7, 7],
                        ending = EndOfFile\<rparr> 0)
     = Inl (FailedToReadPayload ErrUnexpectedEOF)"
  using ReadMessage_oversized_frame
          [of "replicate 16 0" 33554432
              "\<lparr>pending = [3] @ replicate 16 0 @ PutUint32 33554432 @ [7, 7, 7], ending = EndOfFile\<rparr>"
              3 "[7, 7, 7]" 0]
  by (simp add: MAX_FRAME_def)

section \<open>Properties of the HTTP forwarder\<close>

lemma createErrorResponse_ids:
  "DataResponsePayload.RequestID (createErrorResponse req c msg) = DataForwardPayload.RequestID req
   \<and> DataResponsePayload.ConnectionID (createErrorResponse req c msg)
       = DataForwardPayload.ConnectionID req"
  by (simp add: createErrorResponse_def Let_def)

lemma error_body_502:
  \<open>lit ''{"error": "'' @ lit ''Failed to connect to local service'' @ lit ''", "status": ''
     @ Itoa StatusBadGateway @ lit ''}''
   = lit ''{"error": "Failed to connect to local service", "status": 502}''\<close>
  by (simp add: Itoa_def digits.simps lit_def StatusBadGateway_def)

lemma error_body_500_create:
  \<open>lit ''{"error": "'' @ lit ''Failed to create request'' @ lit ''", "status": ''
     @ Itoa StatusInternalServerError @ lit ''}''
   = lit ''{"error": "Failed to create request", "status": 500}''\<close>
  by (simp add: Itoa_def digits.simps lit_def StatusInternalServerError_def)

lemma error_body_500_read:
  \<open>lit ''{"error": "'' @ lit ''Failed to read response'' @ lit ''", "status": ''
     @ Itoa StatusInternalServerError @ lit ''}''
   = lit ''{"error": "Failed to read response", "status": 500}''\<close>
  by (simp add: Itoa_def digits.simps lit_def StatusInternalServerError_def)

lemma HandleRequest_ids:
  "DataResponsePayload.RequestID (fst (HandleRequest w hp req)) = DataForwardPayload.RequestID req
   \<and> DataResponsePayload.ConnectionID (fst (HandleRequest w hp req))
       = DataForwardPayload.ConnectionID req"
  by (simp add: HandleRequest_def Let_def createErrorResponse_ids split: option.split sum.split)

lemma HandleRequest_count:
  "length (filter (\<lambda>r. DataResponsePayload.RequestID r = rid)
             (map (\<lambda>q. fst (HandleRequest w hp q)) reqs))
   = length (filter (\<lambda>q. DataForwardPayload.RequestID q = rid) reqs)"
  by (induction reqs) (simp_all add: HandleRequest_ids)

text \<open>
  C2. Whatever \<^verbatim>\<open>net/http\<close> does, \<open>HandleRequest\<close> returns one response payload and a
  nil error, and the payload carries the request id and the connection id of the request.
  The payload is a synthetic error response when forwarding fails: status 500 with the
  body \<^verbatim>\<open>{"error": "Failed to create request", "status": 500}\<close> when the request cannot
  be built, status 502 with the body for a failed connection when \<^verbatim>\<open>client.Do\<close> fails,
  status 500 with the body \<^verbatim>\<open>{"error": "Failed to read response", "status": 500}\<close> when
  the body cannot be read, each with the single header Content-Type: application/json;
  otherwise it is the answer of the local service. Over any sequence of requests, the
  responses that carry a given request id are exactly as many as the requests that carry
  it, so a request id that arrives once gets one response and never more.
\<close>

theorem HandleRequest_one_response:
  \<open>HandleRequest w hp req =
     ((case NewRequest w (Method req) (lit ''http://localhost:'' @ Itoa (localPort hp) @ Path req)
              (DataForwardPayload.Data req) of
         None \<Rightarrow>
           \<lparr>DataResponsePayload.ConnectionID = DataForwardPayload.ConnectionID req,
            DataResponsePayload.RequestID = DataForwardPayload.RequestID req,
            DataResponsePayload.Data = lit ''{"error": "Failed to create request", "status": 500}'',
            StatusCode = 500,
            DataResponsePayload.Headers = [lit ''Content-Type'' \<mapsto> lit ''application/json'']\<rparr>
       | Some httpReq \<Rightarrow>
           (case Do w (forwardingHeaders w hp req httpReq) of
              Inl err \<Rightarrow>
                \<lparr>DataResponsePayload.ConnectionID = DataForwardPayload.ConnectionID req,
                 DataResponsePayload.RequestID = DataForwardPayload.RequestID req,
                 DataResponsePayload.Data =
                   lit ''{"error": "Failed to connect to local service", "status": 502}'',
                 StatusCode = 502,
                 DataResponsePayload.Headers = [lit ''Content-Type'' \<mapsto> lit ''application/json'']\<rparr>
            | Inr resp \<Rightarrow>
                (case RespBody resp of
                   None \<Rightarrow>
                     \<lparr>DataResponsePayload.ConnectionID = DataForwardPayload.ConnectionID req,
                      DataResponsePayload.RequestID = DataForwardPayload.RequestID req,
                      DataResponsePayload.Data =
                        lit ''{"error": "Failed to read response", "status": 500}'',
                      StatusCode = 500,
                      DataResponsePayload.Headers =
                        [lit ''Content-Type'' \<mapsto> lit ''application/json'']\<rparr>
                 | Some body \<Rightarrow>
                     \<lparr>DataResponsePayload.ConnectionID = DataForwardPayload.ConnectionID req,
                      DataResponsePayload.RequestID = DataForwardPayload.RequestID req,
                      DataResponsePayload.Data = body,
                      StatusCode = RespStatusCode resp,
                      DataResponsePayload.Headers = firstValues (RespHeader resp)\<rparr>))),
      None)
   \<and> DataResponsePayload.RequestID (fst (HandleRequest w hp req)) = DataForwardPayload.RequestID req
   \<and> DataResponsePayload.ConnectionID (fst (HandleRequest w hp req))
       = DataForwardPayload.ConnectionID req
   \<and> length (filter (\<lambda>r. DataResponsePayload.RequestID r = rid)
                (map (\<lambda>q. fst (HandleRequest w hp q)) reqs))
       = length (filter (\<lambda>q. DataForwardPayload.RequestID q = rid) reqs)\<close>
proof (intro conjI)
  show \<open>HandleRequest w hp req =
     ((case NewRequest w (Method req) (lit ''http://localhost:'' @ Itoa (localPort hp) @ Path req)
              (DataForwardPayload.Data req) of
         None \<Rightarrow>
           \<lparr>DataResponsePayload.ConnectionID = DataForwardPayload.ConnectionID req,
            DataResponsePayload.RequestID = DataForwardPayload.RequestID req,
            DataResponsePayload.Data = lit ''{"error": "Failed to create request", "status": 500}'',
            StatusCode = 500,
            DataResponsePayload.Headers = [lit ''Content-Type'' \<mapsto> lit ''application/json'']\<rparr>
       | Some httpReq \<Rightarrow>
           (case Do w (forwardingHeaders w hp req httpReq) of
              Inl err \<Rightarrow>
                \<lparr>DataResponsePayload.ConnectionID = DataForwardPayload.ConnectionID req,
                 DataResponsePayload.RequestID = DataForwardPayload.RequestID req,
                 DataResponsePayload.Data =
                   lit ''{"error": "Failed to connect to local service", "status": 502}'',
                 StatusCode = 502,
                 DataResponsePayload.Headers = [lit ''Content-Type'' \<mapsto> lit ''application/json'']\<rparr>
            | Inr resp \<Rightarrow>
                (case RespBody resp of
                   None \<Rightarrow>
                     \<lparr>DataResponsePayload.ConnectionID = DataForwardPayload.ConnectionID req,
                      DataResponsePayload.RequestID = DataForwardPayload.RequestID req,
                      DataResponsePayload.Data =
                        lit ''{"error": "Failed to read response", "status": 500}'',
                      StatusCode = 500,
                      DataResponsePayload.Headers =
                        [lit ''Content-Type'' \<mapsto> lit ''application/json'']\<rparr>
                 | Some body \<Rightarrow>
                     \<lparr>DataResponsePayload.ConnectionID = DataForwardPayload.ConnectionID req,
                      DataResponsePayload.RequestID = DataForwardPayload.RequestID req,
                      DataResponsePayload.Data = body,
                      StatusCode = RespStatusCode resp,
                      DataResponsePayload.Headers = firstValues (RespHeader resp)\<rparr>))),
      None)\<close>
    using error_body_502 error_body_500_create error_body_500_read
    by (simp add: HandleRequest_def Let_def createErrorResponse_def StatusBadGateway_def
          StatusInternalServerError_def split: option.split sum.split)
  show "DataResponsePayload.RequestID (fst (HandleRequest w hp req))
          = DataForwardPayload.RequestID req"
    by (simp add: HandleRequest_ids)
  show "DataResponsePayload.ConnectionID (fst (HandleRequest w hp req))
          = DataForwardPayload.ConnectionID req"
    by (simp add: HandleRequest_ids)
  show "length (filter (\<lambda>r. DataResponsePayload.RequestID r = rid)
                  (map (\<lambda>q. fst (HandleRequest w hp q)) reqs))
          = length (filter (\<lambda>q. DataForwardPayload.RequestID q = rid) reqs)"
    by (rule HandleRequest_count)
qed

text \<open>
  The status of the response in each of the four outcomes: 500 when the request cannot be
  built, 502 when \<^verbatim>\<open>client.Do\<close> fails, 500 when the body cannot be read, and the status
  of the local service otherwise.
\<close>

lemma HandleRequest_status:
  "StatusCode (fst (HandleRequest w hp req)) =
     (case NewRequest w (Method req) (lit ''http://localhost:'' @ Itoa (localPort hp) @ Path req)
             (DataForwardPayload.Data req) of
        None \<Rightarrow> 500
      | Some httpReq \<Rightarrow>
          (case Do w (forwardingHeaders w hp req httpReq) of
             Inl err \<Rightarrow> 502
           | Inr resp \<Rightarrow> (case RespBody resp of None \<Rightarrow> 500 | Some body \<Rightarrow> RespStatusCode resp)))"
  by (simp add: HandleRequest_def Let_def createErrorResponse_def StatusBadGateway_def
        StatusInternalServerError_def split: option.split sum.split)

text \<open>
  C8 as stated: on a dial failure the body is exactly
  \<^verbatim>\<open>{"error":"Failed to connect to local service","status":502}\<close>. The status is 502,
  but the body the code formats has a space after each colon and after the comma, so it
  is not those bytes.
\<close>

theorem HandleRequest_dial_failure_counterexample:
  \<open>StatusCode (fst (HandleRequest refusing_world test_proxy test_request)) = 502
   \<and> DataResponsePayload.Data (fst (HandleRequest refusing_world test_proxy test_request))
       \<noteq> lit ''{"error":"Failed to connect to local service","status":502}''\<close>
  by (simp add: HandleRequest_def Let_def createErrorResponse_def StatusBadGateway_def
        refusing_world_def test_proxy_def test_request_def Itoa_def digits.simps lit_def)

text \<open>
  C8 amended. When the request to the local service fails in \<^verbatim>\<open>client.Do\<close> (the dial
  fails), \<open>HandleRequest\<close> returns the response with the ids of the request, status 502,
  the single header Content-Type: application/json and the body
  \<^verbatim>\<open>{"error": "Failed to connect to local service", "status": 502}\<close>.
\<close>

theorem HandleRequest_dial_failure:
  assumes "NewRequest w (Method req) (lit ''http://localhost:'' @ Itoa (localPort hp) @ Path req)
             (DataForwardPayload.Data req) = Some httpReq"
      and "Do w (forwardingHeaders w hp req httpReq) = Inl err"
  shows \<open>HandleRequest w hp req =
           (\<lparr>DataResponsePayload.ConnectionID = DataForwardPayload.ConnectionID req,
             DataResponsePayload.RequestID = DataForwardPayload.RequestID req,
             DataResponsePayload.Data =
               lit ''{"error": "Failed to connect to local service", "status": 502}'',
             StatusCode = 502,
             DataResponsePayload.Headers = [lit ''Content-Type'' \<mapsto> lit ''application/json'']\<rparr>,
            None)\<close>
  using assms error_body_502
  by (simp add: HandleRequest_def Let_def createErrorResponse_def StatusBadGateway_def)

theorem HandleRequest_dial_failure_witness:
  \<open>NewRequest refusing_world (Method test_request)
      (lit ''http://localhost:'' @ Itoa (localPort test_proxy) @ Path test_request)
      (DataForwardPayload.Data test_request)
     = Some \<lparr>ReqMethod = lit ''GET'', ReqURL = lit ''http://localhost:3000/api/test'',
              ReqBody = [], ReqHeader = Map.empty\<rparr>
   \<and> Do refusing_world
         (forwardingHeaders refusing_world test_proxy test_request
            \<lparr>ReqMethod = lit ''GET'', ReqURL = lit ''http://localhost:3000/api/test'',
              ReqBody = [], ReqHeader = Map.empty\<rparr>)
     = Inl (lit ''connection refused'')
   \<and> HandleRequest refusing_world test_proxy test_request =
       (\<lparr>DataResponsePayload.ConnectionID = lit ''conn-123'',
         DataResponsePayload.RequestID = lit ''req-456'',
         DataResponsePayload.Data =
           lit ''{"error": "Failed to connect to local service", "status": 502}'',
         StatusCode = 502,
         DataResponsePayload.Headers = [lit ''Content-Type'' \<mapsto> lit ''application/json'']\<rparr>,
        None)\<close>
proof -
  have n: "NewRequest refusing_world (Method test_request)
             (lit ''http://localhost:'' @ Itoa (localPort test_proxy) @ Path test_request)
             (DataForwardPayload.Data test_request)
           = Some \<lparr>ReqMethod = lit ''GET'', ReqURL = lit ''http://localhost:3000/api/test'',
                    ReqBody = [], ReqHeader = Map.empty\<rparr>"
    by (simp add: refusing_world_def test_request_def test_proxy_def Itoa_def digits.simps lit_def)
  have d: "Do refusing_world
             (forwardingHeaders refusing_world test_proxy test_request
                \<lparr>ReqMethod = lit ''GET'', ReqURL = lit ''http://localhost:3000/api/test'',
                  ReqBody = [], ReqHeader = Map.empty\<rparr>)
           = Inl (lit ''connection refused'')"
    by (simp add: refusing_world_def)
  show ?thesis
    using n d HandleRequest_dial_failure [OF n d]
    by (simp add: test_request_def)
qed

section \<open>Properties of the connection pool\<close>

lemma GetConnection_cases:
  assumes "connections cp \<noteq> []"
  shows "GetConnection cp now =
           (let i = (roundRobin cp + 1) mod length (connections cp); conn = connections cp ! i
            in if IsHealthy conn
               then (Inr (conn\<lparr>LastUsed := now\<rparr>),
                     cp\<lparr>roundRobin := i,
                        connections := (connections cp)[i := conn\<lparr>LastUsed := now\<rparr>]\<rparr>)
               else (Inl (ConnectionNotHealthy (Connection.ID conn)), cp\<lparr>roundRobin := i\<rparr>))"
  using assms by (simp add: GetConnection_def Let_def)

text \<open>
  C5 as stated: acquisition succeeds whenever some link of the pool is healthy. In the
  pool of two links below the first is healthy, yet the call selects the second and
  fails.
\<close>

theorem GetConnection_healthy_subset_counterexample:
  "GetHealthyConnections two_link_pool \<noteq> []
   \<and> fst (GetConnection two_link_pool 5) = Inl (ConnectionNotHealthy (lit ''conn_2''))"
  by (simp add: GetHealthyConnections_def GetConnection_def two_link_pool_def)

text \<open>
  C5 amended. \<open>GetConnection\<close> selects round-robin over all links of the pool, healthy
  or not. On an empty pool it fails with the no-connections error and leaves the index.
  On a non-empty pool it advances the index to \<open>(roundRobin + 1) mod n\<close>, returns the
  link at that index when it is healthy and fails with the not-healthy error when it is
  not, even if other links are healthy. The health flags of the pool are left as they
  were.
\<close>

theorem GetConnection_selection:
  "fst (GetConnection cp now) =
     (if connections cp = [] then Inl NoConnectionsAvailable
      else if IsHealthy (connections cp ! ((roundRobin cp + 1) mod length (connections cp)))
      then Inr ((connections cp ! ((roundRobin cp + 1) mod length (connections cp)))
                  \<lparr>LastUsed := now\<rparr>)
      else Inl (ConnectionNotHealthy
                  (Connection.ID
                     (connections cp ! ((roundRobin cp + 1) mod length (connections cp))))))
   \<and> roundRobin (snd (GetConnection cp now)) =
       (if connections cp = [] then roundRobin cp
        else (roundRobin cp + 1) mod length (connections cp))
   \<and> map IsHealthy (connections (snd (GetConnection cp now))) = map IsHealthy (connections cp)"
proof (cases "connections cp = []")
  case True
  then show ?thesis by (simp add: GetConnection_def)
next
  case False
  let ?i = "(roundRobin cp + 1) mod length (connections cp)"
  have lt: "?i < length (connections cp)" using False by simp
  have "map IsHealthy ((connections cp)[?i := (connections cp ! ?i)\<lparr>LastUsed := now\<rparr>])
          = map IsHealthy (connections cp)"
    using lt by (simp add: map_update list_update_same_conv)
  then show ?thesis
    unfolding GetConnection_cases [OF False] Let_def using False
    by simp
qed

theorem GetConnection_selection_witness:
  "fst (GetConnection (two_link_pool\<lparr>roundRobin := 1\<rparr>) 5)
       = Inr \<lparr>Connection.ID = lit ''conn_1'', IsHealthy = True, LastUsed = 5,
              Connection.CreatedAt = 0\<rparr>
   \<and> roundRobin (snd (GetConnection (two_link_pool\<lparr>roundRobin := 1\<rparr>) 5)) = 0
   \<and> fst (GetConnection two_link_pool 5) = Inl (ConnectionNotHealthy (lit ''conn_2''))
   \<and> roundRobin (snd (GetConnection two_link_pool 5)) = 1
   \<and> fst (GetConnection (two_link_pool\<lparr>connections := []\<rparr>) 5) = Inl NoConnectionsAvailable
   \<and> roundRobin (snd (GetConnection (two_link_pool\<lparr>connections := []\<rparr>) 5)) = 0"
  using GetConnection_selection [of "two_link_pool\<lparr>roundRobin := 1\<rparr>" 5]
        GetConnection_selection [of two_link_pool 5]
        GetConnection_selection [of "two_link_pool\<lparr>connections := []\<rparr>" 5]
  by (simp add: two_link_pool_def)

text \<open>The empty pool is the other way to fail.\<close>

lemma GetConnection_empty:
  "connections cp = [] \<Longrightarrow> GetConnection cp now = (Inl NoConnectionsAvailable, cp)"
  by (simp add: GetConnection_def)

text \<open>When every link is healthy the call succeeds and every link stays healthy.\<close>

lemma GetConnection_all_healthy:
  assumes "connections cp \<noteq> []" and "\<forall>c \<in> set (connections cp). IsHealthy c"
  shows "\<exists>conn. fst (GetConnection cp now) = Inr conn"
    and "\<forall>c \<in> set (connections (snd (GetConnection cp now))). IsHealthy c"
proof -
  let ?i = "(roundRobin cp + 1) mod length (connections cp)"
  have lt: "?i < length (connections cp)" using assms(1) by simp
  then have h: "IsHealthy (connections cp ! ?i)" using assms(2) by simp
  show "\<exists>conn. fst (GetConnection cp now) = Inr conn"
    unfolding GetConnection_cases [OF assms(1)] Let_def using h by simp
  show "\<forall>c \<in> set (connections (snd (GetConnection cp now))). IsHealthy c"
    unfolding GetConnection_cases [OF assms(1)] Let_def using h assms(2)
    by (auto dest!: set_update_subset_insert [THEN subsetD])
qed

text \<open>
  C6. Whenever \<open>GetConnection\<close> returns a link, that link is healthy; the link the
  round-robin index selected was healthy (so an unhealthy selection gives an error, not
  the link); and the returned link is the one the pool holds at the new index.
\<close>

theorem GetConnection_returns_healthy:
  assumes "fst (GetConnection cp now) = Inr conn"
  shows "IsHealthy conn
         \<and> connections cp \<noteq> []
         \<and> IsHealthy (connections cp ! ((roundRobin cp + 1) mod length (connections cp)))
         \<and> connections (snd (GetConnection cp now)) ! roundRobin (snd (GetConnection cp now)) = conn"
proof -
  have ne: "connections cp \<noteq> []"
    using assms by (auto simp add: GetConnection_def)
  then have lt: "(roundRobin cp + 1) mod length (connections cp) < length (connections cp)"
    by simp
  show ?thesis
    using assms ne lt unfolding GetConnection_cases [OF ne] Let_def
    by (auto split: if_splits)
qed

theorem GetConnection_returns_healthy_witness:
  "fst (GetConnection (two_link_pool\<lparr>roundRobin := 1\<rparr>) 9)
     = Inr \<lparr>Connection.ID = lit ''conn_1'', IsHealthy = True, LastUsed = 9, Connection.CreatedAt = 0\<rparr>
   \<and> IsHealthy \<lparr>Connection.ID = lit ''conn_1'', IsHealthy = True, LastUsed = 9, Connection.CreatedAt = 0\<rparr>
   \<and> connections (snd (GetConnection (two_link_pool\<lparr>roundRobin := 1\<rparr>) 9))
        ! roundRobin (snd (GetConnection (two_link_pool\<lparr>roundRobin := 1\<rparr>) 9))
       = \<lparr>Connection.ID = lit ''conn_1'', IsHealthy = True, LastUsed = 9, Connection.CreatedAt = 0\<rparr>"
proof -
  have r: "fst (GetConnection (two_link_pool\<lparr>roundRobin := 1\<rparr>) 9)
             = Inr \<lparr>Connection.ID = lit ''conn_1'', IsHealthy = True, LastUsed = 9, Connection.CreatedAt = 0\<rparr>"
    by (simp add: GetConnection_def Let_def two_link_pool_def)
  show ?thesis
    using r GetConnection_returns_healthy [OF r] by simp
qed

section \<open>Properties of the tunnel manager\<close>

lemma handleMessage_unhandled_type:
  assumes "Type message \<notin> {MessageTypeDataForward, MessageTypeAcknowledge, MessageTypeError,
                              MessageTypeHeartbeat}"
  shows "handleMessage w tm tunnelID message =
           tm\<lparr>logs := logs tm @ [(LevelDebug, lit ''Handling message''),
                                  (LevelWarn, lit ''Unknown message type'')]\<rparr>"
  using assms by (simp add: handleMessage_def Let_def logger_def)

text \<open>
  C7 as stated: a frame with a type byte outside 1..7 makes the demultiplexer mark the
  link unhealthy and exit. Here a frame of type 9 is followed by a heartbeat frame whose
  payload is the JSON object \<^verbatim>\<open>{}\<close>: the loop handles both and keeps waiting, and the
  manager differs from the one it started with only by four log lines, so the tunnel is
  still active and the pool is untouched.
\<close>

theorem processMessages_unknown_type_counterexample:
  "processMessages unreachable_net active_manager (lit ''t1'')
     [MessageReceived (Some \<lparr>Type = 9, TunnelID = lit ''t1'', Payload = [], Message.Timestamp = 0\<rparr>),
      MessageReceived (Some \<lparr>Type = 5, TunnelID = lit ''t1'', Payload = lit ''{}'',
                              Message.Timestamp = 0\<rparr>)]
   = (Waiting,
      active_manager\<lparr>logs := [(LevelDebug, lit ''Handling message''),
                              (LevelWarn, lit ''Unknown message type''),
                              (LevelDebug, lit ''Handling message''),
                              (LevelDebug, lit ''Received heartbeat'')]\<rparr>)"
  by (simp add: handleMessage_def handleHeartbeat_def ParsePayload_def Let_def logger_def
        active_manager_def unreachable_net_def MessageTypeDataForward_def
        MessageTypeAcknowledge_def MessageTypeError_def MessageTypeHeartbeat_def)

text \<open>
  C7 amended. For a received frame whose type byte is outside 1..7 the manager writes
  the debug line and the warning \<open>Unknown message type\<close>, changes nothing else (no tunnel
  state, no link health), and \<open>processMessages\<close> goes on with the frames that follow.
\<close>

theorem processMessages_unknown_type:
  assumes "\<not> (1 \<le> Type message \<and> Type message \<le> 7)"
  shows "processMessages w tm tunnelID (MessageReceived (Some message) # events) =
           processMessages w
             (tm\<lparr>logs := logs tm @ [(LevelDebug, lit ''Handling message''),
                                    (LevelWarn, lit ''Unknown message type'')]\<rparr>)
             tunnelID events"
proof -
  have "Type message \<notin> {MessageTypeDataForward, MessageTypeAcknowledge, MessageTypeError,
                           MessageTypeHeartbeat}"
    using assms
    by (auto simp add: MessageTypeDataForward_def MessageTypeAcknowledge_def
          MessageTypeError_def MessageTypeHeartbeat_def)
  then show ?thesis by (simp add: handleMessage_unhandled_type)
qed

theorem processMessages_unknown_type_witness:
  "\<not> (1 \<le> Type \<lparr>Type = 200, TunnelID = lit ''t1'', Payload = [], Message.Timestamp = 0\<rparr>
       \<and> Type \<lparr>Type = 200, TunnelID = lit ''t1'', Payload = [], Message.Timestamp = 0\<rparr> \<le> 7)
   \<and> processMessages unreachable_net active_manager (lit ''t1'')
         [MessageReceived (Some \<lparr>Type = 200, TunnelID = lit ''t1'', Payload = [],
                                  Message.Timestamp = 0\<rparr>),
          CtxDone]
       = (Returned,
          active_manager\<lparr>logs :=
            [(LevelDebug, lit ''Handling message''),
             (LevelWarn, lit ''Unknown message type''),
             (LevelInfo, lit ''Message processing stopped due to context cancellation'')]\<rparr>)"
  using processMessages_unknown_type
          [of "\<lparr>Type = 200, TunnelID = lit ''t1'', Payload = [], Message.Timestamp = 0\<rparr>"
              unreachable_net active_manager "lit ''t1''" "[CtxDone]"]
  by (simp add: logger_def active_manager_def)

text \<open>
  One call of \<open>reconnectTunnel\<close> for a known tunnel sleeps once, for the reconnect
  interval, and dials once, whatever \<open>MaxReconnectAttempts\<close> is; when that dial fails the
  tunnel is put in the error state.
\<close>

lemma reconnectTunnel_single_attempt:
  assumes "getTunnel tm tunnelID = Some tunnelInfo"
  shows "slept (reconnectTunnel w tm tunnelID) = slept tm @ [ReconnectInterval (config tm)]"
    and "dials (dataPlane (reconnectTunnel w tm tunnelID)) = dials (dataPlane tm) + 1"
    and "\<not> dial_ok w (dials (dataPlane tm)) \<Longrightarrow>
           map_option State (tunnels (reconnectTunnel w tm tunnelID) tunnelID)
             = Some TunnelStateError"
  using assms
  by (auto simp add: reconnectTunnel_def Let_def getTunnel_def logger_def Sleep_def Connect_def
        Disconnect_def updateTunnelState_def RegisterTunnel_def WriteTunnelRegistration_def
        WriteMessage_def
      split: option.splits prod.splits if_splits)

text \<open>
  C9. The claim: after a link failure the connection is retried with exponential backoff
  for up to \<open>MaxReconnectAttempts\<close> attempts (10 by default) before the tunnel goes to
  the error state. With the default settings and a network on which every dial fails,
  the code sleeps once for 5 s, dials once and puts the tunnel in the error state.
\<close>

theorem reconnect_gives_up_after_one_attempt:
  "MaxReconnectAttempts DefaultConfig = 10
   \<and> ReconnectInterval DefaultConfig = 5 * Second
   \<and> config active_manager = DefaultConfig
   \<and> slept (handleConnectionError unreachable_net active_manager (lit ''t1'')
               (Some (ReaderError (FailedToReadHeader ErrIO))))
       = [5 * Second]
   \<and> dials (dataPlane (handleConnectionError unreachable_net active_manager (lit ''t1'')
                          (Some (ReaderError (FailedToReadHeader ErrIO)))))
       = dials (dataPlane active_manager) + 1
   \<and> map_option State
         (tunnels (handleConnectionError unreachable_net active_manager (lit ''t1'')
                     (Some (ReaderError (FailedToReadHeader ErrIO))))
            (lit ''t1''))
       = Some TunnelStateError"
  by (simp add: handleConnectionError_def updateTunnelStateByID_def reconnectTunnel_def Let_def
        getTunnel_def logger_def Sleep_def Connect_def Disconnect_def updateTunnelState_def
        active_manager_def unreachable_net_def DefaultConfig_def)

section \<open>Properties of the heartbeat task\<close>

lemma SendHeartbeat_written:
  "written (snd (SendHeartbeat w d tunnelID a t now)) = written d
   \<or> written (snd (SendHeartbeat w d tunnelID a t now))
       = written d @ [Serialize (NewHeartbeatMessage tunnelID
                                   \<lparr>HeartbeatPayload.Timestamp = now, ActiveConns = a,
                                     TotalRequests = t\<rparr> now)]"
  by (simp add: SendHeartbeat_def WriteHeartbeat_def WriteMessage_def Let_def)

text \<open>
  C10. Whatever the events, everything the heartbeat task writes is appended to what the
  client had written, and every frame it writes is the serialized heartbeat message for
  its tunnel whose payload has \<open>active_conns = 0\<close> and \<open>total_requests = 0\<close>; only the
  timestamp differs from frame to frame.
\<close>

theorem StartHeartbeat_zero_counters:
  "\<exists>new. written (StartHeartbeat w d tunnelID events) = written d @ new
         \<and> (\<forall>f \<in> set new. \<exists>now.
               f = Serialize (NewHeartbeatMessage tunnelID
                                \<lparr>HeartbeatPayload.Timestamp = now, ActiveConns = 0,
                                  TotalRequests = 0\<rparr> now))"
proof (induction w d tunnelID events rule: StartHeartbeat.induct)
  case (1 w d tunnelID)
  then show ?case by simp
next
  case (2 w d tunnelID events)
  then show ?case by simp
next
  case (3 w d tunnelID now events)
  let ?d = "snd (SendHeartbeat w d tunnelID 0 0 now)"
  let ?f = "Serialize (NewHeartbeatMessage tunnelID
                         \<lparr>HeartbeatPayload.Timestamp = now, ActiveConns = 0, TotalRequests = 0\<rparr>
                         now)"
  from 3 obtain new where n: "written (StartHeartbeat w ?d tunnelID events) = written ?d @ new"
    and f: "\<forall>f \<in> set new. \<exists>now.
              f = Serialize (NewHeartbeatMessage tunnelID
                               \<lparr>HeartbeatPayload.Timestamp = now, ActiveConns = 0,
                                 TotalRequests = 0\<rparr> now)"
    by blast
  from SendHeartbeat_written [of w d tunnelID 0 0 now]
  show ?case
  proof
    assume "written ?d = written d"
    then show ?thesis using n f by auto
  next
    assume a: "written ?d = written d @ [?f]"
    have "written (StartHeartbeat w d tunnelID (HbTick now # events)) = written d @ (?f # new)"
      using n a by simp
    moreover have "\<forall>g \<in> set (?f # new). \<exists>now.
              g = Serialize (NewHeartbeatMessage tunnelID
                               \<lparr>HeartbeatPayload.Timestamp = now, ActiveConns = 0,
                                 TotalRequests = 0\<rparr> now)"
      using f by auto
    ultimately show ?thesis by blast
  qed
next
  case (4 w d tunnelID c events)
  then show ?case by simp
qed

theorem StartHeartbeat_zero_counters_witness:
  "written (StartHeartbeat unreachable_net (dataPlane active_manager) (lit ''t1'')
              [HbTick 100, HbConnected False, HbTick 130, HbConnected True, HbTick 160, HbDone])
     = written (dataPlane active_manager)
       @ [Serialize (NewHeartbeatMessage (lit ''t1'')
                       \<lparr>HeartbeatPayload.Timestamp = 100, ActiveConns = 0, TotalRequests = 0\<rparr> 100),
          Serialize (NewHeartbeatMessage (lit ''t1'')
                       \<lparr>HeartbeatPayload.Timestamp = 160, ActiveConns = 0, TotalRequests = 0\<rparr> 160)]
   \<and> (\<exists>now. Serialize (NewHeartbeatMessage (lit ''t1'')
                       \<lparr>HeartbeatPayload.Timestamp = 160, ActiveConns = 0, TotalRequests = 0\<rparr> 160)
               = Serialize (NewHeartbeatMessage (lit ''t1'')
                              \<lparr>HeartbeatPayload.Timestamp = now, ActiveConns = 0,
                                TotalRequests = 0\<rparr> now))"
  using StartHeartbeat_zero_counters
          [of unreachable_net "dataPlane active_manager" "lit ''t1''"
              "[HbTick 100, HbConnected False, HbTick 130, HbConnected True, HbTick 160, HbDone]"]
  by (simp add: SendHeartbeat_def WriteHeartbeat_def WriteMessage_def Let_def
        unreachable_net_def active_manager_def)

text \<open>The payload of such a frame, as bytes.\<close>

lemma Marshal_HeartbeatPayload_example:
  \<open>Marshal_HeartbeatPayload
     \<lparr>HeartbeatPayload.Timestamp = 100, ActiveConns = 0, TotalRequests = 0\<rparr>
   = lit ''{"timestamp":100,"active_conns":0,"total_requests":0}''\<close>
  by (simp add: Marshal_HeartbeatPayload_def Itoa_def digits.simps lit_def)

end
